theory Spec2Isabelle
  imports Main "HOL-Library.Sublist"
begin

section \<open>Strings and integers of the source language\<close>

text \<open>
  A Python \<open>str\<close> is modelled as a \<open>string\<close> whose characters are the code points
  0 to 255. In that range the decimal digits of the regular expression class \<open>\d\<close> are
  exactly \<open>0\<close> to \<open>9\<close>. Python integers are unbounded and modelled as \<open>int\<close>.
\<close>

definition is_digit :: "char \<Rightarrow> bool" where
  "is_digit c = (c \<in> set ''0123456789'')"

definition digit_val :: "char \<Rightarrow> nat" where
  "digit_val c = of_char c - 48"

definition digit_char :: "nat \<Rightarrow> char" where
  "digit_char n = char_of (48 + n)"

text \<open>The characters that \<open>str.strip()\<close> and \<open>int()\<close> treat as white space (code points
  9 to 13, 28 to 32, 133 and 160).\<close>

definition is_space :: "char \<Rightarrow> bool" where
  "is_space c = ((of_char c :: nat) \<in> {9, 10, 11, 12, 13, 28, 29, 30, 31, 32, 133, 160})"

definition strip :: "string \<Rightarrow> string" where
  "strip s = rev (dropWhile is_space (rev (dropWhile is_space s)))"

text \<open>\<open>str(n)\<close> for an integer: decimal digits, a minus sign for a negative number.\<close>

fun str_nat :: "nat \<Rightarrow> string" where
  "str_nat n = (if n < 10 then [digit_char n] else str_nat (n div 10) @ [digit_char (n mod 10)])"

definition str_int :: "int \<Rightarrow> string" where
  "str_int i = (if i < 0 then CHR ''-'' # str_nat (nat (- i)) else str_nat (nat i))"

text \<open>The format \<open>{hours:02d}\<close>: at least two digits, padded with a zero.\<close>

definition format_02d :: "int \<Rightarrow> string" where
  "format_02d i = (let s = str_int i in if length s < 2 then CHR ''0'' # s else s)"

text \<open>
  \<open>int(s)\<close> on a string: surrounding white space is stripped, then a nonempty run of
  decimal digits is read. Anything else is \<open>None\<close> here (a \<open>ValueError\<close> in the source);
  signs and underscores do not occur in a string that passed the format check of
  \<open>round_time_to_nearest_hour\<close>.
\<close>

definition digits_val :: "string \<Rightarrow> nat" where
  "digits_val ds = foldl (\<lambda>acc c. 10 * acc + digit_val c) 0 ds"

definition py_int :: "string \<Rightarrow> int option" where
  "py_int s = (let t = strip s in
     if t \<noteq> [] \<and> list_all is_digit t then Some (int (digits_val t)) else None)"

text \<open>\<open>s.split(':')\<close>: the pieces of \<open>s\<close> between the colons.\<close>

fun split_colon_acc :: "string \<Rightarrow> string \<Rightarrow> string list" where
  "split_colon_acc acc [] = [rev acc]"
| "split_colon_acc acc (c # cs) =
     (if c = CHR '':'' then rev acc # split_colon_acc [] cs else split_colon_acc (c # acc) cs)"

definition split_colon :: "string \<Rightarrow> string list" where
  "split_colon s = split_colon_acc [] s"

section \<open>utils.py: rounding a time to the hour\<close>

text \<open>
  \<open>re.match(r'^\d{1,2}:\d{2}$', time_str)\<close>. The pattern body is one or two digits, a
  colon and two digits. In Python \<open>$\<close> matches at the end of the string and also just
  before a newline that ends the string, so one trailing line feed is allowed.
\<close>

fun time_body :: "string \<Rightarrow> bool" where
  "time_body [h1, c, m1, m2] = (is_digit h1 \<and> c = CHR '':'' \<and> is_digit m1 \<and> is_digit m2)"
| "time_body [h1, h2, c, m1, m2] =
     (is_digit h1 \<and> is_digit h2 \<and> c = CHR '':'' \<and> is_digit m1 \<and> is_digit m2)"
| "time_body _ = False"

definition time_format_match :: "string \<Rightarrow> bool" where
  "time_format_match s =
     (time_body s \<or> (s \<noteq> [] \<and> last s = CHR 0x0A \<and> time_body (butlast s)))"

definition round_time_to_nearest_hour :: "string \<Rightarrow> string option" where
  "round_time_to_nearest_hour time_str =
     (if \<not> time_format_match time_str then None
      else case map py_int (split_colon time_str) of
        [Some hours, Some minutes] \<Rightarrow>
          if hours < 0 \<or> hours > 23 \<or> minutes < 0 \<or> minutes > 59 then None
          else Some (format_02d (if minutes \<ge> 30 then (hours + 1) mod 24 else hours) @ '':00'')
      | _ \<Rightarrow> None)"

section \<open>tools.py: the catalog, the ledger and the three tools\<close>

text \<open>
  A restaurant of \<open>restaurant.json\<close> with the five keys the tools read. The catalog
  \<open>ALL_RESTAURANTS\<close> is loaded from a file that is not part of the sources, so every
  function takes it as its first argument.
\<close>

record restaurant =
  r_id :: string
  r_name :: string
  r_tags :: "string list"
  r_location :: string
  r_capacity :: int

text \<open>\<open>str.lower()\<close> on the code points 0 to 255: the letters A to Z and the Latin-1
  capitals (192 to 222 without 215) move up by 32.\<close>

definition lower_char :: "char \<Rightarrow> char" where
  "lower_char c = (let n = (of_char c :: nat) in
     if (65 \<le> n \<and> n \<le> 90) \<or> (192 \<le> n \<and> n \<le> 222 \<and> n \<noteq> 215) then char_of (n + 32) else c)"

definition lower :: "string \<Rightarrow> string" where
  "lower s = map lower_char s"

text \<open>Python truth values of optional arguments: \<open>None\<close>, the empty string, the empty
  list and the number 0 are false.\<close>

definition truthy_str :: "string option \<Rightarrow> bool" where
  "truthy_str x = (case x of None \<Rightarrow> False | Some s \<Rightarrow> s \<noteq> [])"

definition truthy_list :: "'a list option \<Rightarrow> bool" where
  "truthy_list x = (case x of None \<Rightarrow> False | Some l \<Rightarrow> l \<noteq> [])"

definition truthy_int :: "int option \<Rightarrow> bool" where
  "truthy_int x = (case x of None \<Rightarrow> False | Some i \<Rightarrow> i \<noteq> 0)"

text \<open>The body of the loop of \<open>find_restaurant\<close>: the value of \<open>is_match\<close> after the
  four filters. \<open>a in b\<close> on strings is the contiguous substring test.\<close>

definition is_match :: "string option \<Rightarrow> string option \<Rightarrow> string list option \<Rightarrow> int option
    \<Rightarrow> restaurant \<Rightarrow> bool" where
  "is_match name location tags party_size restaurant =
     (let m0 = True;
          m1 = (if truthy_str name \<and> \<not> sublist (lower (the name)) (lower (r_name restaurant))
                then False else m0);
          m2 = (if truthy_str location \<and> m1
                then (if \<not> sublist (lower (the location)) (lower (r_location restaurant))
                      then False else m1)
                else m1);
          m3 = (if truthy_list tags \<and> m2
                then (if \<not> list_ex (\<lambda>tag. lower tag \<in> set (map lower (r_tags restaurant))) (the tags)
                      then False else m2)
                else m2);
          m4 = (if truthy_int party_size \<and> m3
                then (if the party_size \<le> 0 then False
                      else if the party_size > r_capacity restaurant then False
                      else m3)
                else m3)
      in m4)"

text \<open>The dictionary that \<open>find_restaurant\<close> serialises: under the key \<open>result\<close> either
  a message or the list of the matching restaurants.\<close>

datatype find_result = Message string | Restaurants "restaurant list"

definition find_restaurant :: "restaurant list \<Rightarrow> string option \<Rightarrow> string option
    \<Rightarrow> string list option \<Rightarrow> int option \<Rightarrow> find_result" where
  "find_restaurant ALL_RESTAURANTS name location tags party_size =
     (let matches = filter (is_match name location tags party_size) ALL_RESTAURANTS
      in if matches = [] then Message ''No restaurants found matching your criteria.''
         else Restaurants matches)"

text \<open>The restaurants a result lists (none for the message).\<close>

fun result_matches :: "find_result \<Rightarrow> restaurant list" where
  "result_matches (Message _) = []"
| "result_matches (Restaurants rs) = rs"

subsection \<open>The reservation ledger\<close>

text \<open>
  A row of the table \<open>reservations\<close> (the column \<open>created_at\<close>, a time stamp set by the
  store, is left out). The database is the list of its rows in insertion order together
  with the last key that \<open>AUTOINCREMENT\<close> handed out. Party sizes and capacities are
  mathematical integers: the 64-bit limit of the store is not modelled.
\<close>

record reservation =
  res_id :: int
  res_restaurant_id :: string
  booking_date :: string
  booking_time :: string
  res_party_size :: int
  res_user_name :: string
  res_user_phone :: string

record db =
  rows :: "reservation list"
  last_rowid :: int

definition empty_db :: db where
  "empty_db = \<lparr>rows = [], last_rowid = 0\<rparr>"

text \<open>\<open>SELECT SUM(party_size) ... WHERE restaurant_id = ? AND booking_date = ? AND
  booking_time = ?\<close>: \<open>None\<close> (SQL NULL) when no row matches.\<close>

definition slot_rows :: "db \<Rightarrow> string \<Rightarrow> string \<Rightarrow> string \<Rightarrow> reservation list" where
  "slot_rows d restaurant_id date time =
     filter (\<lambda>r. res_restaurant_id r = restaurant_id \<and> booking_date r = date \<and> booking_time r = time)
       (rows d)"

definition select_sum :: "db \<Rightarrow> string \<Rightarrow> string \<Rightarrow> string \<Rightarrow> int option" where
  "select_sum d restaurant_id date time =
     (let ps = map res_party_size (slot_rows d restaurant_id date time)
      in if ps = [] then None else Some (sum_list ps))"

text \<open>\<open>total_booked = result[0] if result[0] is not None else 0\<close>\<close>

definition total_booked :: "db \<Rightarrow> string \<Rightarrow> string \<Rightarrow> string \<Rightarrow> int" where
  "total_booked d restaurant_id date time =
     (case select_sum d restaurant_id date time of None \<Rightarrow> 0 | Some s \<Rightarrow> s)"

text \<open>\<open>INSERT INTO reservations ...\<close>: the new row gets the next key, which is also
  \<open>cursor.lastrowid\<close>.\<close>

definition insert_reservation :: "db \<Rightarrow> string \<Rightarrow> string \<Rightarrow> string \<Rightarrow> int \<Rightarrow> string \<Rightarrow> string
    \<Rightarrow> int \<times> db" where
  "insert_reservation d restaurant_id date time party_size user_name user_phone =
     (let k = last_rowid d + 1;
          row = \<lparr>res_id = k, res_restaurant_id = restaurant_id, booking_date = date,
                 booking_time = time, res_party_size = party_size, res_user_name = user_name,
                 res_user_phone = user_phone\<rparr>
      in (k, d\<lparr>rows := rows d @ [row], last_rowid := k\<rparr>))"

text \<open>The loop \<open>for r in ALL_RESTAURANTS: if r["id"] == restaurant_id: ... break\<close>: the
  first restaurant with that id.\<close>

definition lookup_restaurant :: "restaurant list \<Rightarrow> string \<Rightarrow> restaurant option" where
  "lookup_restaurant ALL_RESTAURANTS restaurant_id =
     find (\<lambda>r. r_id r = restaurant_id) ALL_RESTAURANTS"

subsection \<open>check_availability\<close>

text \<open>The dictionary \<open>check_availability\<close> serialises. The keys \<open>restaurant_capacity\<close> and
  \<open>available_capacity\<close> are present only in the result of the last \<open>return\<close>.\<close>

record availability_result =
  av_available :: bool
  av_restaurant_id :: string
  av_date :: string
  av_time :: string
  av_party_size :: int
  av_restaurant_capacity :: "int option"
  av_available_capacity :: "int option"
  av_message :: string

definition availability_failure :: "string \<Rightarrow> string \<Rightarrow> string \<Rightarrow> int \<Rightarrow> string
    \<Rightarrow> availability_result" where
  "availability_failure restaurant_id date time party_size message =
     \<lparr>av_available = False, av_restaurant_id = restaurant_id, av_date = date, av_time = time,
      av_party_size = party_size, av_restaurant_capacity = None, av_available_capacity = None,
      av_message = message\<rparr>"

definition availability_message :: "bool \<Rightarrow> int \<Rightarrow> int \<Rightarrow> int \<Rightarrow> int \<Rightarrow> string \<Rightarrow> string" where
  "availability_message is_available booked restaurant_capacity available_capacity party_size
      rounded_time =
     (if is_available then ''Tables are available at this time!''
      else if booked = restaurant_capacity
        then ''Sorry, the restaurant is fully booked at '' @ rounded_time @ ''.''
      else if available_capacity > 0
        then ''Sorry, we only have space for '' @ str_int available_capacity
             @ '' more people at '' @ rounded_time @ '', not '' @ str_int party_size @ ''.''
      else ''Sorry, we don'' @ [CHR 0x27] @ ''t have availability for '' @ str_int party_size
             @ '' people at '' @ rounded_time @ ''.'')"

definition availability_report :: "string \<Rightarrow> string \<Rightarrow> string \<Rightarrow> int \<Rightarrow> int \<Rightarrow> int
    \<Rightarrow> availability_result" where
  "availability_report restaurant_id date rounded_time party_size restaurant_capacity booked =
     (let available_capacity = restaurant_capacity - booked;
          is_available = party_size \<le> available_capacity
      in \<lparr>av_available = is_available, av_restaurant_id = restaurant_id,
           av_date = date, av_time = rounded_time, av_party_size = party_size,
           av_restaurant_capacity = Some restaurant_capacity,
           av_available_capacity = Some available_capacity,
           av_message = availability_message is_available booked restaurant_capacity
             available_capacity party_size rounded_time\<rparr>)"

text \<open>The function reads the database and returns it as it got it: the connection is
  opened, one \<open>SELECT\<close> is run, the connection is closed.\<close>

definition check_availability :: "restaurant list \<Rightarrow> db \<Rightarrow> string \<Rightarrow> string \<Rightarrow> string \<Rightarrow> int
    \<Rightarrow> availability_result \<times> db" where
  "check_availability ALL_RESTAURANTS d restaurant_id date time party_size =
     (if party_size \<le> 0 then
        (availability_failure restaurant_id date time party_size
           ''Party size must be a positive number.'', d)
      else case lookup_restaurant ALL_RESTAURANTS restaurant_id of
        None \<Rightarrow>
          (availability_failure restaurant_id date time party_size
             (''Restaurant with ID '' @ restaurant_id @ '' not found.''), d)
      | Some restaurant \<Rightarrow>
          let restaurant_capacity = r_capacity restaurant in
          if party_size > restaurant_capacity then
            (availability_failure restaurant_id date time party_size
               (''Sorry, this restaurant can only accommodate up to ''
                @ str_int restaurant_capacity @ '' people in total.''), d)
          else (case round_time_to_nearest_hour time of
            None \<Rightarrow>
              (availability_failure restaurant_id date time party_size
                 ''Invalid time format. Please use HH:MM format.'', d)
          | Some rounded_time \<Rightarrow>
              (availability_report restaurant_id date rounded_time party_size restaurant_capacity
                 (total_booked d restaurant_id date rounded_time), d)))"

subsection \<open>make_reservation\<close>

text \<open>The dictionary \<open>make_reservation\<close> serialises. The keys \<open>reservation_id\<close> and
  \<open>restaurant_name\<close> are present only in the result of a booking that succeeded.\<close>

record booking_result =
  bk_success :: bool
  bk_reservation_id :: "string option"
  bk_restaurant_id :: string
  bk_restaurant_name :: "string option"
  bk_date :: string
  bk_time :: string
  bk_party_size :: int
  bk_user_name :: string
  bk_user_phone :: string
  bk_message :: string

definition booking_failure :: "string \<Rightarrow> string \<Rightarrow> string \<Rightarrow> int \<Rightarrow> string \<Rightarrow> string \<Rightarrow> string
    \<Rightarrow> booking_result" where
  "booking_failure restaurant_id date time party_size user_name user_phone message =
     \<lparr>bk_success = False, bk_reservation_id = None, bk_restaurant_id = restaurant_id,
      bk_restaurant_name = None, bk_date = date, bk_time = time, bk_party_size = party_size,
      bk_user_name = user_name, bk_user_phone = user_phone, bk_message = message\<rparr>"

text \<open>
  The exclusive transaction works on a copy \<open>tx\<close> of the database: \<open>commit\<close> returns the
  copy as the new database, \<open>rollback\<close> returns the database as it was. Reading the
  capacity of a restaurant that the second lookup does not find raises a \<open>TypeError\<close>,
  which the \<open>except\<close> clause turns into a failure after a rollback.
\<close>

definition make_reservation :: "restaurant list \<Rightarrow> db \<Rightarrow> string \<Rightarrow> string \<Rightarrow> string \<Rightarrow> int
    \<Rightarrow> string \<Rightarrow> string \<Rightarrow> booking_result \<times> db" where
  "make_reservation ALL_RESTAURANTS d restaurant_id date time party_size user_name user_phone =
     (if user_name = [] \<or> user_phone = [] then
        (booking_failure restaurant_id date time party_size user_name user_phone
           ''Name and phone number are required for reservation.'', d)
      else
        let (availability_result, d1) =
              check_availability ALL_RESTAURANTS d restaurant_id date time party_size
        in if \<not> av_available availability_result then
             (booking_failure restaurant_id date time party_size user_name user_phone
                (av_message availability_result), d1)
           else
             let rounded_time = av_time availability_result;
                 tx = d1;
                 booked = total_booked tx restaurant_id date rounded_time
             in case lookup_restaurant ALL_RESTAURANTS restaurant_id of
                  None \<Rightarrow>
                    (booking_failure restaurant_id date rounded_time party_size user_name user_phone
                       (''Failed to make reservation: '' @ [CHR 0x27] @ ''NoneType'' @ [CHR 0x27]
                        @ '' object is not subscriptable''), d1)
                | Some restaurant \<Rightarrow>
                    let restaurant_capacity = r_capacity restaurant;
                        available_capacity = restaurant_capacity - booked
                    in if available_capacity < party_size then
                         (booking_failure restaurant_id date rounded_time party_size user_name
                            user_phone
                            (''Sorry, the restaurant became fully booked while processing your ''
                             @ ''reservation. Only '' @ str_int available_capacity
                             @ '' seats available.''), d1)
                       else
                         let (reservation_id, tx') =
                               insert_reservation tx restaurant_id date rounded_time party_size
                                 user_name user_phone;
                             restaurant_name = r_name restaurant
                         in (\<lparr>bk_success = True,
                               bk_reservation_id = Some (''res'' @ str_int reservation_id),
                               bk_restaurant_id = restaurant_id,
                               bk_restaurant_name = Some restaurant_name,
                               bk_date = date, bk_time = rounded_time, bk_party_size = party_size,
                               bk_user_name = user_name, bk_user_phone = user_phone,
                               bk_message = ''Your reservation at '' @ restaurant_name @ '' for ''
                                 @ str_int party_size @ '' people on '' @ date @ '' at ''
                                 @ rounded_time @ '' has been confirmed!''\<rparr>, tx'))"

text \<open>A call of \<open>make_reservation\<close> with its six arguments, and a sequence of calls run
  one after the other on the same database.\<close>

record booking_call =
  call_restaurant_id :: string
  call_date :: string
  call_time :: string
  call_party_size :: int
  call_user_name :: string
  call_user_phone :: string

definition make_reservation_call :: "restaurant list \<Rightarrow> db \<Rightarrow> booking_call \<Rightarrow> booking_result \<times> db" where
  "make_reservation_call ALL_RESTAURANTS d c =
     make_reservation ALL_RESTAURANTS d (call_restaurant_id c) (call_date c) (call_time c)
       (call_party_size c) (call_user_name c) (call_user_phone c)"

fun run_calls :: "restaurant list \<Rightarrow> db \<Rightarrow> booking_call list \<Rightarrow> db" where
  "run_calls ALL_RESTAURANTS d [] = d"
| "run_calls ALL_RESTAURANTS d (c # cs) =
     run_calls ALL_RESTAURANTS (snd (make_reservation_call ALL_RESTAURANTS d c)) cs"

text \<open>The capacity invariant of the ledger: in every slot of a restaurant of the catalog
  the party sizes sum to at most the capacity.\<close>

definition capacity_invariant :: "restaurant list \<Rightarrow> db \<Rightarrow> bool" where
  "capacity_invariant ALL_RESTAURANTS d =
     (\<forall>restaurant_id date time restaurant.
        lookup_restaurant ALL_RESTAURANTS restaurant_id = Some restaurant \<longrightarrow>
        total_booked d restaurant_id date time \<le> r_capacity restaurant)"

section \<open>app.py: the sequential tool calling loop\<close>

text \<open>
  The values \<open>json.loads\<close> produces (numbers with a fraction are left out). An object is
  the list of its items, whose keys are distinct.
\<close>

datatype json = JNull | JBool bool | JInt int | JStr string | JArr "json list"
  | JObj "(string \<times> json) list"

text \<open>The truth value of \<open>if function_call:\<close>, where \<open>None\<close> is what the extractor
  returns when it finds no call.\<close>

fun truthy :: "json option \<Rightarrow> bool" where
  "truthy None = False"
| "truthy (Some JNull) = False"
| "truthy (Some (JBool b)) = b"
| "truthy (Some (JInt i)) = (i \<noteq> 0)"
| "truthy (Some (JStr s)) = (s \<noteq> [])"
| "truthy (Some (JArr xs)) = (xs \<noteq> [])"
| "truthy (Some (JObj kvs)) = (kvs \<noteq> [])"

text \<open>The exceptions of the loop: the two the loop body itself can raise on a value of
  the wrong type, and whatever the generation service or a tool raises.\<close>

datatype py_exception = AttributeError | TypeError | Raised string

text \<open>\<open>tools.tool_map\<close> has three keys.\<close>

definition tool_map :: "string list" where
  "tool_map = [''find_restaurant'', ''check_availability'', ''make_reservation'']"

text \<open>\<open>function_name in tools.tool_map\<close>: a list or an object cannot be hashed.\<close>

fun in_tool_map :: "json \<Rightarrow> py_exception + bool" where
  "in_tool_map (JStr s) = Inr (s \<in> set tool_map)"
| "in_tool_map (JArr _) = Inl TypeError"
| "in_tool_map (JObj _) = Inl TypeError"
| "in_tool_map _ = Inr False"

text \<open>\<open>str(function_name)\<close> inside the f-string of the invalid-name branch, which only a
  value that can be hashed reaches.\<close>

fun str_json :: "json \<Rightarrow> string" where
  "str_json JNull = ''None''"
| "str_json (JBool b) = (if b then ''True'' else ''False'')"
| "str_json (JInt i) = str_int i"
| "str_json (JStr s) = s"
| "str_json _ = []"

fun dict_set :: "(string \<times> json) list \<Rightarrow> string \<Rightarrow> json \<Rightarrow> (string \<times> json) list" where
  "dict_set [] k v = [(k, v)]"
| "dict_set ((k', v') # kvs) k v = (if k' = k then (k, v) # kvs else (k', v') # dict_set kvs k v)"

text \<open>
  The block \<open>if "time" in parameters: ...\<close>. The membership test raises on a value that is
  no container, the subscript raises on a list or a string, and
  \<open>round_time_to_nearest_hour\<close> raises on a value that is no string.
\<close>

fun round_time_parameter :: "json \<Rightarrow> py_exception + json" where
  "round_time_parameter (JObj kvs) =
     (case map_of kvs ''time'' of
        None \<Rightarrow> Inr (JObj kvs)
      | Some (JStr time_param) \<Rightarrow>
          (case round_time_to_nearest_hour time_param of
             None \<Rightarrow> Inr (JObj kvs)
           | Some rounded_time \<Rightarrow> Inr (JObj (dict_set kvs ''time'' (JStr rounded_time))))
      | Some _ \<Rightarrow> Inl TypeError)"
| "round_time_parameter (JArr xs) = (if JStr ''time'' \<in> set xs then Inl TypeError else Inr (JArr xs))"
| "round_time_parameter (JStr s) = (if sublist ''time'' s then Inl TypeError else Inr (JStr s))"
| "round_time_parameter _ = Inl TypeError"

subsection \<open>utils.py: the history sent to the generation service\<close>

record message =
  msg_role :: string
  msg_content :: string

text \<open>The index of the first message of the user, 0 when there is none.\<close>

fun first_user_index :: "message list \<Rightarrow> nat \<Rightarrow> nat option" where
  "first_user_index [] i = None"
| "first_user_index (m # ms) i = (if msg_role m = ''user'' then Some i else first_user_index ms (Suc i))"

definition format_turn :: "string \<Rightarrow> nat \<Rightarrow> nat \<times> message \<Rightarrow> string" where
  "format_turn initial_instructions first_user_msg_idx im =
     (let i = fst im; m = snd im;
          role = (if msg_role m = ''assistant'' then ''model'' else ''user'');
          content = (if i = first_user_msg_idx \<and> role = ''user''
                     then initial_instructions @ [CHR 0x0A] @ msg_content m
                     else msg_content m)
      in ''<start_of_turn>'' @ role @ [CHR 0x0A] @ content @ ''<end_of_turn>'' @ [CHR 0x0A])"

definition format_history_for_gemma :: "message list \<Rightarrow> string \<Rightarrow> string" where
  "format_history_for_gemma messages initial_instructions =
     (if messages = [] then
        ''<start_of_turn>user'' @ [CHR 0x0A] @ initial_instructions @ ''<end_of_turn>''
        @ [CHR 0x0A] @ ''<start_of_turn>model'' @ [CHR 0x0A]
      else
        let first_user_msg_idx = (case first_user_index messages 0 of None \<Rightarrow> 0 | Some i \<Rightarrow> i)
        in concat (map (format_turn initial_instructions first_user_msg_idx)
                     (zip [0..<length messages] messages))
           @ ''<start_of_turn>model'' @ [CHR 0x0A])"

subsection \<open>app.py: cleaning the response and extracting the call\<close>

text \<open>
  \<open>re.sub(tag + r'\s*', '', text)\<close> for a nonempty tag: every occurrence of the tag, from
  left to right, is removed together with the white space that follows it.
\<close>

function remove_tag :: "string \<Rightarrow> string \<Rightarrow> string" where
  "remove_tag tag [] = []"
| "remove_tag tag (c # cs) =
     (if tag \<noteq> [] \<and> prefix tag (c # cs)
      then remove_tag tag (dropWhile is_space (drop (length tag) (c # cs)))
      else c # remove_tag tag cs)"
  by pat_completeness auto
termination
proof (relation "measure (\<lambda>(tag, s). length s)")
  fix tag :: string and c :: char and cs :: string
  assume "tag \<noteq> [] \<and> prefix tag (c # cs)"
  then have "length (drop (length tag) (c # cs)) < length (c # cs)"
    by (cases tag) simp_all
  with length_dropWhile_le[of is_space "drop (length tag) (c # cs)"]
  show "((tag, dropWhile is_space (drop (length tag) (c # cs))), tag, c # cs)
          \<in> measure (\<lambda>(tag, s). length s)"
    by simp
qed simp_all

definition rstrip :: "string \<Rightarrow> string" where
  "rstrip s = rev (dropWhile is_space (rev s))"

text \<open>
  The four substitutions of \<open>clean_response_text\<close> and the final \<open>strip()\<close>:
  \<^item> \<open><end_of_turn>\s*$\<close> matches the tag when only white space follows it up to the
    end of the text;
  \<^item> the two \<open><start_of_turn>\<close> tags are removed wherever they occur;
  \<^item> \<open>^\s*\((.*)\)\s*$\<close> matches a text that, without the white space around it, is
    one pair of parentheses around a body without a line feed (the dot does not match a
    line feed), and replaces the text by the body.
\<close>

definition clean_response_text :: "string \<Rightarrow> string" where
  "clean_response_text text0 =
     (let text1 = (let r = rstrip text0
                   in if suffix ''<end_of_turn>'' r
                      then take (length r - length ''<end_of_turn>'') r else text0);
          text2 = remove_tag ''<start_of_turn>model'' text1;
          text3 = remove_tag ''<start_of_turn>user'' text2;
          text4 = (let r = strip text3
                   in if 2 \<le> length r \<and> hd r = CHR ''('' \<and> last r = CHR '')''
                         \<and> CHR 0x0A \<notin> set (butlast (tl r))
                      then butlast (tl r) else text3)
      in strip text4)"

text \<open>
  \<open>re.search(r'\{.*"function_call".*\}', text, re.DOTALL)\<close>: the match starts at the
  first opening brace and ends at the last closing brace of the text, and exists when
  the quoted word \<open>function_call\<close> occurs between the two.
\<close>

definition quoted :: "string \<Rightarrow> string" where
  "quoted s = [CHR 0x22] @ s @ [CHR 0x22]"

definition search_function_call :: "string \<Rightarrow> string option" where
  "search_function_call text0 =
     (let from_brace = dropWhile (\<lambda>c. c \<noteq> CHR ''{'') text0;
          json_str = rev (dropWhile (\<lambda>c. c \<noteq> CHR ''}'') (rev from_brace))
      in if sublist (quoted ''function_call'') (butlast (tl json_str))
         then Some json_str else None)"

subsection \<open>The loop\<close>

text \<open>
  What the loop uses from outside the sources, as functions it is given: the
  generation service, which returns the text of the response or raises; \<open>json.loads\<close>,
  which returns the parsed value or raises a \<open>JSONDecodeError\<close> (\<open>None\<close> here); the call
  \<open>tool_function(**parameters)\<close> on the keyword arguments, which works on a state
  \<open>'w\<close> (the database) and returns the text of the result or raises; and the text
  \<open>str(e)\<close> of an exception. The long text \<open>AGENT_INITIAL_INSTRUCTIONS\<close> of
  \<open>prompts.py\<close> is given in the same way.
\<close>

record 'w environment =
  AGENT_INITIAL_INSTRUCTIONS :: string
  generate_content :: "string \<Rightarrow> py_exception + string"
  json_loads :: "string \<Rightarrow> json option"
  tool_function :: "string \<Rightarrow> (string \<times> json) list \<Rightarrow> 'w \<Rightarrow> (py_exception + string) \<times> 'w"
  str_exception :: "py_exception \<Rightarrow> string"

text \<open>
  \<open>extract_function_call\<close>: the matched text is parsed and the value under the key
  \<open>function_call\<close> is returned. No match, a text that does not parse, a parsed value
  without \<open>.get\<close> and a missing key all give \<open>None\<close>.
\<close>

definition extract_function_call :: "'w environment \<Rightarrow> string \<Rightarrow> json option" where
  "extract_function_call env text0 =
     (case search_function_call text0 of
        None \<Rightarrow> None
      | Some json_str \<Rightarrow>
          (case json_loads env json_str of
             Some (JObj function_call_data) \<Rightarrow> map_of function_call_data ''function_call''
           | _ \<Rightarrow> None))"

text \<open>The variables of the loop. \<open>final_assistant_response\<close> is \<open>None\<close> until a branch
  assigns it; it is what the user is shown after the loop.\<close>

record 'w session =
  llm_messages :: "message list"
  tool_call_count :: nat
  final_assistant_response :: "string option"
  world :: 'w

definition MAX_SEQUENTIAL_CALLS :: nat where
  "MAX_SEQUENTIAL_CALLS = 4"

datatype 'w outcome = Continue "'w session" | Break "'w session"

definition append_messages :: "'w session \<Rightarrow> message list \<Rightarrow> 'w session" where
  "append_messages s ms = s\<lparr>llm_messages := llm_messages s @ ms\<rparr>"

text \<open>The handler \<open>except Exception as e\<close> of the outer \<open>try\<close>.\<close>

definition generation_error :: "'w environment \<Rightarrow> 'w session \<Rightarrow> py_exception \<Rightarrow> 'w outcome" where
  "generation_error env s e =
     Break (s\<lparr>final_assistant_response :=
               Some (''Error generating response: '' @ str_exception env e)\<rparr>)"

text \<open>The inner \<open>try\<close>: the tool is called; its result or its exception is appended after
  the text of the model, and the counter goes up in both cases. Keyword arguments that
  are no object raise a \<open>TypeError\<close> inside the \<open>try\<close>.\<close>

definition call_tool :: "'w environment \<Rightarrow> 'w session \<Rightarrow> string \<Rightarrow> string \<Rightarrow> json \<Rightarrow> 'w outcome" where
  "call_tool env s assistant_response function_name parameters =
     (let (r, w) = (case parameters of
                      JObj kvs \<Rightarrow> tool_function env function_name kvs (world s)
                    | _ \<Rightarrow> (Inl TypeError, world s));
          reply = (case r of
                     Inr tool_result \<Rightarrow> ''Function result: '' @ tool_result
                   | Inl e \<Rightarrow> ''Error calling function: '' @ str_exception env e)
      in Continue ((append_messages s
                      [\<lparr>msg_role = ''assistant'', msg_content = assistant_response\<rparr>,
                       \<lparr>msg_role = ''user'', msg_content = reply\<rparr>])
                   \<lparr>tool_call_count := tool_call_count s + 1, world := w\<rparr>))"

text \<open>The branch \<open>if function_call:\<close> of the body. Reading \<open>.get\<close> on a value that is no
  object raises an \<open>AttributeError\<close>; a missing \<open>name\<close> is \<open>None\<close>, missing
  \<open>parameters\<close> are the empty object.\<close>

definition handle_function_call :: "'w environment \<Rightarrow> 'w session \<Rightarrow> string \<Rightarrow> json \<Rightarrow> 'w outcome" where
  "handle_function_call env s assistant_response function_call =
     (case function_call of
        JObj fc \<Rightarrow>
          (let function_name = (case map_of fc ''name'' of None \<Rightarrow> JNull | Some v \<Rightarrow> v);
               parameters = (case map_of fc ''parameters'' of None \<Rightarrow> JObj [] | Some v \<Rightarrow> v)
           in case in_tool_map function_name of
                Inl e \<Rightarrow> generation_error env s e
              | Inr True \<Rightarrow>
                  (case round_time_parameter parameters of
                     Inl e \<Rightarrow> generation_error env s e
                   | Inr parameters' \<Rightarrow>
                       call_tool env s assistant_response (str_json function_name) parameters')
              | Inr False \<Rightarrow>
                  Break ((append_messages s
                            [\<lparr>msg_role = ''assistant'', msg_content = assistant_response\<rparr>,
                             \<lparr>msg_role = ''user'',
                              msg_content = ''Invalid function name: '' @ str_json function_name\<rparr>])
                         \<lparr>final_assistant_response := Some assistant_response\<rparr>))
      | _ \<Rightarrow> generation_error env s AttributeError)"

text \<open>One pass through the body of the \<open>while\<close> loop: \<open>Continue\<close> for \<open>continue\<close>,
  \<open>Break\<close> for \<open>break\<close>.\<close>

definition iteration :: "'w environment \<Rightarrow> 'w session \<Rightarrow> 'w outcome" where
  "iteration env s =
     (let formatted_history =
            format_history_for_gemma (llm_messages s) (AGENT_INITIAL_INSTRUCTIONS env)
      in case generate_content env formatted_history of
           Inl e \<Rightarrow> generation_error env s e
         | Inr response_text \<Rightarrow>
             (let assistant_response = clean_response_text response_text;
                  function_call = extract_function_call env assistant_response
              in if truthy function_call
                 then handle_function_call env s assistant_response (the function_call)
                 else Break ((append_messages s
                                [\<lparr>msg_role = ''assistant'', msg_content = assistant_response\<rparr>])
                             \<lparr>final_assistant_response := Some assistant_response\<rparr>)))"

text \<open>\<open>while tool_call_count < MAX_SEQUENTIAL_CALLS\<close>, with the bound as an argument.\<close>

function tool_calling_loop :: "'w environment \<Rightarrow> nat \<Rightarrow> 'w session \<Rightarrow> 'w session" where
  "tool_calling_loop env bound s =
     (if tool_call_count s < bound
      then (case iteration env s of
              Continue s' \<Rightarrow> tool_calling_loop env bound s'
            | Break s' \<Rightarrow> s')
      else s)"
  by pat_completeness auto
termination
  by (relation "measure (\<lambda>(env, bound, s). bound - tool_call_count s)")
     (auto simp: iteration_def handle_function_call_def call_tool_def generation_error_def
        append_messages_def Let_def split_beta
      split: sum.splits if_splits json.splits bool.splits option.splits)

text \<open>The handling of one message of the user: the message is appended, the counter is
  set to 0, the answer to \<open>None\<close>, and the loop runs with the configured bound.\<close>

definition handle_user_input :: "'w environment \<Rightarrow> message list \<Rightarrow> 'w \<Rightarrow> string \<Rightarrow> 'w session" where
  "handle_user_input env messages w user_input =
     tool_calling_loop env MAX_SEQUENTIAL_CALLS
       \<lparr>llm_messages = messages @ [\<lparr>msg_role = ''user'', msg_content = user_input\<rparr>],
        tool_call_count = 0, final_assistant_response = None, world = w\<rparr>"

section \<open>Statements of the specification and example data\<close>

text \<open>
  The time format in the words of the specification: exactly two numeric fields
  separated by a colon, the hour in 0 to 23 and the minute in 0 to 59.
\<close>

definition two_numeric_fields :: "string \<Rightarrow> bool" where
  "two_numeric_fields t =
     (case split_colon t of
        [h, m] \<Rightarrow> h \<noteq> [] \<and> list_all is_digit h \<and> m \<noteq> [] \<and> list_all is_digit m
                  \<and> digits_val h \<le> 23 \<and> digits_val m \<le> 59
      | _ \<Rightarrow> False)"




text \<open>A catalog with one restaurant of four seats, and calls that book a table there.\<close>

definition spice_garden :: restaurant where
  "spice_garden = \<lparr>r_id = ''r1'', r_name = ''Spice Garden'', r_tags = [''Indian'', ''Vegan''],
     r_location = ''Downtown'', r_capacity = 4\<rparr>"

definition example_catalog :: "restaurant list" where
  "example_catalog = [spice_garden]"

definition example_call :: "int \<Rightarrow> booking_call" where
  "example_call n = \<lparr>call_restaurant_id = ''r1'', call_date = ''2025-06-01'',
     call_time = ''19:10'', call_party_size = n, call_user_name = ''Ann'',
     call_user_phone = ''555-0100''\<rparr>"

text \<open>
  A generation service that answers every request with the same text, a sentence
  followed by the directive for the operation \<open>name\<close> without parameters; the parser
  on that directive; and a tool that counts how often it is called.
\<close>

definition directive_text :: "string \<Rightarrow> string" where
  "directive_text name =
     ''{'' @ quoted ''function_call'' @ '': {'' @ quoted ''name'' @ '': '' @ quoted name
     @ '', '' @ quoted ''parameters'' @ '': {}}}''"

definition directive_json :: "string \<Rightarrow> json" where
  "directive_json name =
     JObj [(''function_call'', JObj [(''name'', JStr name), (''parameters'', JObj [])])]"

definition stub_response :: "string \<Rightarrow> string" where
  "stub_response name = ''I will look that up. '' @ directive_text name"

definition stub_environment :: "string \<Rightarrow> nat environment" where
  "stub_environment name =
     \<lparr>AGENT_INITIAL_INSTRUCTIONS = ''You are a reservation assistant.'',
      generate_content = (\<lambda>formatted_history. Inr (stub_response name)),
      json_loads = (\<lambda>json_str. if json_str = directive_text name
                                 then Some (directive_json name) else None),
      tool_function = (\<lambda>function_name parameters w. (Inr ''{}'', Suc w)),
      str_exception = (\<lambda>e. case e of Raised m \<Rightarrow> m | _ \<Rightarrow> ''error'')\<rparr>"

text \<open>A call the loop dispatches: an object with the name of a tool, whose parameters
  (when present) are an object in which \<open>time\<close> (when present) is a string.\<close>

definition dispatchable :: "json option \<Rightarrow> bool" where
  "dispatchable function_call =
     (case function_call of
        Some (JObj fc) \<Rightarrow>
          (case map_of fc ''name'' of
             Some (JStr function_name) \<Rightarrow>
               function_name \<in> set tool_map \<and>
               (case map_of fc ''parameters'' of
                  None \<Rightarrow> True
                | Some (JObj kvs) \<Rightarrow>
                    (case map_of kvs ''time'' of None \<Rightarrow> True | Some (JStr _) \<Rightarrow> True
                     | Some _ \<Rightarrow> False)
                | Some _ \<Rightarrow> False)
           | _ \<Rightarrow> False)
      | _ \<Rightarrow> False)"

declare str_nat.simps [simp del]

declare tool_calling_loop.simps [simp del]

section \<open>Time rounding\<close>

lemma round_time_examples:
  "round_time_to_nearest_hour ''10:15'' = Some ''10:00''"
  "round_time_to_nearest_hour ''10:30'' = Some ''11:00''"
  "round_time_to_nearest_hour ''23:45'' = Some ''00:00''"
  "round_time_to_nearest_hour ''9:5'' = None"
  "round_time_to_nearest_hour ''24:00'' = None"
  by code_simp+

text \<open>Every result of the rounding is one of the 24 times on the hour, and each of them
  is rounded to itself.\<close>

lemma round_time_on_the_hour:
  "\<forall>h\<in>set [0..<24]. round_time_to_nearest_hour (format_02d (int h) @ '':00'')
      = Some (format_02d (int h) @ '':00'')"
  by code_simp

lemma round_time_SomeD:
  assumes "round_time_to_nearest_hour t = Some r"
  shows "\<exists>hours minutes. map py_int (split_colon t) = [Some hours, Some minutes]
           \<and> 0 \<le> hours \<and> hours \<le> 23 \<and> 0 \<le> minutes \<and> minutes \<le> 59
           \<and> r = format_02d (if minutes \<ge> 30 then (hours + 1) mod 24 else hours) @ '':00''"
proof -
  define ps where "ps = map py_int (split_colon t)"
  from assms have m: "time_format_match t"
    by (simp add: round_time_to_nearest_hour_def split: if_splits)
  with assms have c: "(case ps of
        [Some hours, Some minutes] \<Rightarrow>
          if hours < 0 \<or> hours > 23 \<or> minutes < 0 \<or> minutes > 59 then None
          else Some (format_02d (if minutes \<ge> 30 then (hours + 1) mod 24 else hours) @ '':00'')
      | _ \<Rightarrow> None) = Some r"
    by (simp add: round_time_to_nearest_hour_def ps_def)
  then obtain hours minutes where ps: "ps = [Some hours, Some minutes]"
    by (auto split: list.splits option.splits)
  with c show ?thesis unfolding ps_def[symmetric] by (auto split: if_splits)
qed

text \<open>
  Claim C5. Rounding is idempotent: whenever \<open>round_time_to_nearest_hour\<close> returns a
  value for a time string, it returns the same value when applied to that value.
\<close>

theorem round_time_idempotent:
  "round_time_to_nearest_hour t = Some r \<Longrightarrow> round_time_to_nearest_hour r = Some r"
proof -
  assume a: "round_time_to_nearest_hour t = Some r"
  from round_time_SomeD[OF a] obtain hours minutes where
    rng: "0 \<le> hours" "hours \<le> 23" 
    and r: "r = format_02d (if (minutes::int) \<ge> 30 then (hours + 1) mod 24 else hours) @ '':00''"
    by blast
  define h where "h = (if minutes \<ge> 30 then (hours + 1) mod 24 else hours)"
  have r': "r = format_02d h @ '':00''" unfolding h_def by (rule r)
  have "0 \<le> h \<and> h \<le> 23" using rng by (auto simp: h_def)
  then have mem: "nat h \<in> set [0..<24]" and hh: "int (nat h) = h" by auto
  from round_time_on_the_hour mem
  have "round_time_to_nearest_hour (format_02d (int (nat h)) @ '':00'')
          = Some (format_02d (int (nat h)) @ '':00'')" by blast
  then have "round_time_to_nearest_hour (format_02d h @ '':00'') = Some (format_02d h @ '':00'')"
    by (simp only: hh)
  then show ?thesis by (simp only: r')
qed

theorem round_time_idempotent_witness:
  "round_time_to_nearest_hour ''10:30'' = Some ''11:00''
   \<and> round_time_to_nearest_hour ''11:00'' = Some ''11:00''"
proof -
  have h: "round_time_to_nearest_hour ''10:30'' = Some ''11:00''" by code_simp
  from round_time_idempotent[OF h] h show ?thesis by (rule_tac conjI)
qed

lemma is_digit_not_colon: "is_digit c \<Longrightarrow> c \<noteq> CHR '':''"
  by (auto simp: is_digit_def)

lemma is_digit_not_space: "is_digit c \<Longrightarrow> \<not> is_space c"
  by (auto simp: is_digit_def is_space_def)

lemma is_digit_not_newline: "is_digit c \<Longrightarrow> c \<noteq> CHR 0x0A"
  by (auto simp: is_digit_def)

lemma is_space_newline: "is_space (CHR 0x0A)"
  by (simp add: is_space_def)

lemma time_body_shape:
  assumes "time_body b"
  shows "\<exists>hs m1 m2. b = hs @ [CHR '':'', m1, m2] \<and> (length hs = 1 \<or> length hs = 2)
           \<and> list_all is_digit hs \<and> is_digit m1 \<and> is_digit m2"
  using assms
proof (induction b rule: time_body.induct)
  case (1 h1 c m1 m2)
  then show ?case by auto
next
  case (2 h1 h2 c m1 m2)
  then show ?case by auto
qed simp_all

lemma split_colon_acc_digits:
  "list_all is_digit hs \<Longrightarrow> split_colon_acc acc (hs @ CHR '':'' # rest)
     = (rev acc @ hs) # split_colon_acc [] rest"
  by (induction hs arbitrary: acc) (auto simp: is_digit_not_colon)

lemma split_colon_acc_no_colon:
  "CHR '':'' \<notin> set cs \<Longrightarrow> split_colon_acc acc cs = [rev acc @ cs]"
  by (induction cs arbitrary: acc) auto

lemma split_colon_time:
  assumes "list_all is_digit hs" "CHR '':'' \<notin> set ms"
  shows "split_colon (hs @ CHR '':'' # ms) = [hs, ms]"
  using assms by (simp add: split_colon_def split_colon_acc_digits split_colon_acc_no_colon)

lemma strip_digits:
  assumes "hs \<noteq> []" "list_all is_digit hs"
  shows "strip hs = hs" and "strip (hs @ [CHR 0x0A]) = hs"
proof -
  from assms obtain c cs where hs: "hs = c # cs" by (cases hs) auto
  with assms have c: "\<not> is_space c" by (simp add: is_digit_not_space)
  from assms have l: "\<not> is_space (last hs)"
    by (simp add: is_digit_not_space list_all_iff)
  have r: "dropWhile is_space (rev hs) = rev hs"
    using assms(1) l by (cases "rev hs") (auto simp: last_rev[symmetric] hd_rev)
  show "strip hs = hs" using c r by (simp add: strip_def hs)
  have "dropWhile is_space (rev (hs @ [CHR 0x0A])) = rev hs"
    using r by (simp add: is_space_newline)
  then show "strip (hs @ [CHR 0x0A]) = hs" using c by (simp add: strip_def hs)
qed

lemma py_int_digits:
  assumes "hs \<noteq> []" "list_all is_digit hs"
  shows "py_int hs = Some (int (digits_val hs))"
    and "py_int (hs @ [CHR 0x0A]) = Some (int (digits_val hs))"
  using assms by (simp_all add: py_int_def strip_digits Let_def)

text \<open>The inputs the function accepts: two numeric fields, with one or two digits for the
  hour and two for the minute, possibly followed by one line feed.\<close>

lemma round_time_accepted_shape:
  assumes "round_time_to_nearest_hour t = Some r"
  shows "two_numeric_fields (if t \<noteq> [] \<and> last t = CHR 0x0A then butlast t else t)"
proof -
  from assms have m: "time_format_match t"
    by (simp add: round_time_to_nearest_hour_def split: if_splits)
  define b where "b = (if t \<noteq> [] \<and> last t = CHR 0x0A then butlast t else t)"
  have tb: "time_body b \<and> (t = b \<or> t = b @ [CHR 0x0A])"
  proof (cases "time_body t")
    case True
    from time_body_shape[OF True] obtain hs m1 m2 where
      "t = hs @ [CHR '':'', m1, m2]" "is_digit m2" by blast
    then have "last t \<noteq> CHR 0x0A" by (simp add: is_digit_not_newline)
    with True show ?thesis by (simp add: b_def)
  next
    case False
    with m have "t \<noteq> []" "last t = CHR 0x0A" "time_body (butlast t)"
      by (auto simp: time_format_match_def)
    then show ?thesis using append_butlast_last_id[of t] by (simp add: b_def)
  qed
  from time_body_shape[OF conjunct1[OF tb]] obtain hs m1 m2 where
    b: "b = hs @ [CHR '':'', m1, m2]" and len: "length hs = 1 \<or> length hs = 2"
    and hs: "list_all is_digit hs" and m1: "is_digit m1" and m2: "is_digit m2" by blast
  from len have ne: "hs \<noteq> []" by auto
  have ms: "list_all is_digit [m1, m2]" "[m1, m2] \<noteq> []" using m1 m2 by simp_all
  have nc: "CHR '':'' \<notin> set [m1, m2]" "CHR '':'' \<notin> set ([m1, m2] @ [CHR 0x0A])"
    using m1 m2 by (auto dest: is_digit_not_colon)
  have sb: "split_colon b = [hs, [m1, m2]]"
    unfolding b using split_colon_time[OF hs nc(1)] by simp
  have ints: "map py_int (split_colon t)
                = [Some (int (digits_val hs)), Some (int (digits_val [m1, m2]))]"
  proof -
    from tb have "t = b \<or> t = b @ [CHR 0x0A]" by simp
    then show ?thesis
    proof
      assume "t = b"
      then show ?thesis using sb py_int_digits(1)[OF ne hs] py_int_digits(1)[OF ms(2) ms(1)]
        by simp
    next
      assume "t = b @ [CHR 0x0A]"
      then have "split_colon t = [hs, [m1, m2] @ [CHR 0x0A]]"
        unfolding b using split_colon_time[OF hs nc(2)] by simp
      then show ?thesis using py_int_digits(1)[OF ne hs] py_int_digits(2)[OF ms(2) ms(1)]
        by simp
    qed
  qed
  from assms m ints have "digits_val hs \<le> 23 \<and> digits_val [m1, m2] \<le> 59"
    by (simp add: round_time_to_nearest_hour_def split: if_splits)
  with sb hs ne m1 m2 show ?thesis
    unfolding b_def[symmetric] by (simp add: two_numeric_fields_def)
qed










text \<open>
  Claim C6. The function is to reject every input that is not two numeric fields
  separated by a colon with the hour in 0 to 23 and the minute in 0 to 59. The string
  \<open>10:15\<close> followed by a line feed is no such input: its second field is not numeric.
  The pattern test lets it pass, because \<open>$\<close> also matches before a final line feed,
  \<open>int()\<close> ignores the line feed, and the function returns \<open>10:00\<close>.
\<close>

theorem round_time_accepts_trailing_newline:
  "\<not> two_numeric_fields (''10:15'' @ [CHR 0x0A])
   \<and> round_time_to_nearest_hour (''10:15'' @ [CHR 0x0A]) = Some ''10:00''"
  by code_simp

section \<open>Searching the catalog\<close>

lemma is_match_no_filters: "is_match None None None None r"
  by (simp add: is_match_def truthy_str_def truthy_list_def truthy_int_def)

lemma find_restaurant_no_filters:
  "result_matches (find_restaurant cat None None None None) = cat"
  by (simp add: find_restaurant_def is_match_no_filters Let_def)

lemma find_restaurant_negative_party_size:
  "party_size < 0 \<Longrightarrow> result_matches (find_restaurant cat name location tags (Some party_size)) = []"
  by (simp add: find_restaurant_def is_match_def truthy_int_def Let_def)

lemma find_restaurant_no_common_tag:
  assumes "tags \<noteq> []"
    and "\<forall>r\<in>set cat. \<forall>tag\<in>set tags. lower tag \<notin> set (map lower (r_tags r))"
  shows "result_matches (find_restaurant cat name location (Some tags) party_size) = []"
proof -
  have "\<not> is_match name location (Some tags) party_size r" if "r \<in> set cat" for r
    using assms that by (auto simp: is_match_def truthy_list_def list_ex_iff Let_def)
  then have "filter (is_match name location (Some tags) party_size) cat = []"
    by (simp add: filter_empty_conv)
  then show ?thesis by (simp add: find_restaurant_def)
qed

text \<open>
  Claim C3. A party size that is not positive is to yield no match. A party size of 0
  is a false value for the test \<open>if party_size and is_match\<close>, so the filter that
  rejects a non-positive size is not run: without other filters the whole catalog is
  returned.
\<close>

theorem find_restaurant_party_size_zero:
  "find_restaurant example_catalog None None None (Some 0) = Restaurants example_catalog"
  by (simp add: find_restaurant_def is_match_def truthy_str_def truthy_list_def truthy_int_def
        example_catalog_def)

text \<open>An empty list of tags is a false value as well and filters nothing.\<close>

lemma find_restaurant_empty_tags:
  "find_restaurant example_catalog None None (Some []) None = Restaurants example_catalog"
  by (simp add: find_restaurant_def is_match_def truthy_str_def truthy_list_def truthy_int_def
        example_catalog_def)

section \<open>The reservation ledger\<close>

lemma total_booked_sum:
  "total_booked d restaurant_id date time
     = sum_list (map res_party_size (slot_rows d restaurant_id date time))"
  by (simp add: total_booked_def select_sum_def Let_def)

lemma slot_rows_insert:
  "slot_rows (snd (insert_reservation d rid date rt ps un up)) rid' date' t' =
     slot_rows d rid' date' t' @
       (if rid = rid' \<and> date = date' \<and> rt = t'
        then [\<lparr>res_id = last_rowid d + 1, res_restaurant_id = rid, booking_date = date,
                booking_time = rt, res_party_size = ps, res_user_name = un,
                res_user_phone = up\<rparr>] else [])"
  by (simp add: insert_reservation_def slot_rows_def Let_def)

lemma total_booked_insert:
  "total_booked (snd (insert_reservation d rid date rt ps un up)) rid' date' t' =
     total_booked d rid' date' t' + (if rid = rid' \<and> date = date' \<and> rt = t' then ps else 0)"
  by (simp add: total_booked_sum slot_rows_insert)

lemma rows_insert:
  "rows (snd (insert_reservation d rid date rt ps un up)) =
     rows d @ [\<lparr>res_id = last_rowid d + 1, res_restaurant_id = rid, booking_date = date,
                booking_time = rt, res_party_size = ps, res_user_name = un,
                res_user_phone = up\<rparr>]"
  by (simp add: insert_reservation_def Let_def)

lemma check_availability_snd: "snd (check_availability cat d rid date time ps) = d"
  by (simp add: check_availability_def Let_def split: option.splits)

lemma check_availability_failure_cases:
  assumes "ps \<le> 0 \<or> lookup_restaurant cat rid = None
           \<or> (\<exists>r. lookup_restaurant cat rid = Some r \<and> r_capacity r < ps)
           \<or> round_time_to_nearest_hour time = None"
  shows "\<exists>m. fst (check_availability cat d rid date time ps)
                = availability_failure rid date time ps m"
  using assms by (auto simp: check_availability_def Let_def split: option.splits)

lemma check_availability_report:
  assumes "0 < ps" "lookup_restaurant cat rid = Some r" "ps \<le> r_capacity r"
    "round_time_to_nearest_hour time = Some rt"
  shows "fst (check_availability cat d rid date time ps)
           = availability_report rid date rt ps (r_capacity r) (total_booked d rid date rt)"
  using assms by (simp add: check_availability_def Let_def)

lemma check_availability_available:
  assumes "av_available (fst (check_availability cat d rid date time ps))"
  shows "\<exists>r rt. lookup_restaurant cat rid = Some r \<and> round_time_to_nearest_hour time = Some rt
           \<and> 0 < ps \<and> av_time (fst (check_availability cat d rid date time ps)) = rt
           \<and> ps \<le> r_capacity r - total_booked d rid date rt"
  using assms
  by (auto simp: check_availability_def availability_failure_def availability_report_def Let_def
      split: option.splits if_splits)

lemma make_reservation_failure:
  assumes "un = [] \<or> up = [] \<or> \<not> av_available (fst (check_availability cat d rid date time ps))"
  shows "make_reservation cat d rid date time ps un up =
           (booking_failure rid date time ps un up
              (if un = [] \<or> up = [] then ''Name and phone number are required for reservation.''
               else av_message (fst (check_availability cat d rid date time ps))), d)"
proof (cases "un = [] \<or> up = []")
  case True
  then show ?thesis by (simp add: make_reservation_def)
next
  case False
  with assms have na: "\<not> av_available (fst (check_availability cat d rid date time ps))" by simp
  obtain res d1 where c: "check_availability cat d rid date time ps = (res, d1)"
    by (cases "check_availability cat d rid date time ps")
  have d1: "d1 = d" using check_availability_snd[of cat d rid date time ps] c by simp
  from False na c d1 show ?thesis by (simp add: make_reservation_def)
qed

lemma make_reservation_success:
  assumes "un \<noteq> []" "up \<noteq> []" "lookup_restaurant cat rid = Some r"
    "round_time_to_nearest_hour time = Some rt" "0 < ps" "ps \<le> r_capacity r"
    "ps \<le> r_capacity r - total_booked d rid date rt"
  shows "bk_success (fst (make_reservation cat d rid date time ps un up))
         \<and> snd (make_reservation cat d rid date time ps un up)
             = snd (insert_reservation d rid date rt ps un up)"
proof -
  have c: "check_availability cat d rid date time ps
             = (availability_report rid date rt ps (r_capacity r) (total_booked d rid date rt), d)"
    using check_availability_report[OF assms(5) assms(3) assms(6) assms(4), of d date]
      check_availability_snd[of cat d rid date time ps]
    by (simp add: prod_eq_iff)
  from assms show ?thesis
    by (simp add: make_reservation_def c availability_report_def Let_def split_beta)
qed

lemma make_reservation_cases:
  "(\<not> bk_success (fst (make_reservation cat d rid date time ps un up))
      \<and> snd (make_reservation cat d rid date time ps un up) = d)
   \<or> (bk_success (fst (make_reservation cat d rid date time ps un up))
      \<and> (\<exists>r rt. lookup_restaurant cat rid = Some r \<and> round_time_to_nearest_hour time = Some rt
            \<and> 0 < ps \<and> total_booked d rid date rt + ps \<le> r_capacity r
            \<and> snd (make_reservation cat d rid date time ps un up)
                = snd (insert_reservation d rid date rt ps un up)))"
proof (cases "un = [] \<or> up = [] \<or> \<not> av_available (fst (check_availability cat d rid date time ps))")
  case True
  from make_reservation_failure[OF True] show ?thesis by (simp add: booking_failure_def)
next
  case False
  then have un: "un \<noteq> []" and up: "up \<noteq> []"
    and av: "av_available (fst (check_availability cat d rid date time ps))" by auto
  from check_availability_available[OF av]
  obtain r rt where r: "lookup_restaurant cat rid = Some r"
    and rt: "round_time_to_nearest_hour time = Some rt" and ps: "0 < ps"
    and le: "ps \<le> r_capacity r - total_booked d rid date rt"
    by auto
  have cap: "ps \<le> r_capacity r"
  proof (rule ccontr)
    assume "\<not> ps \<le> r_capacity r"
    then have "\<exists>r. lookup_restaurant cat rid = Some r \<and> r_capacity r < ps" using r by auto
    then obtain m where "fst (check_availability cat d rid date time ps)
                = availability_failure rid date time ps m"
      using check_availability_failure_cases[of ps cat rid time d date] by blast
    with av show False by (simp add: availability_failure_def)
  qed
  from make_reservation_success[OF un up r rt ps cap le] r rt ps le
  show ?thesis by auto
qed

lemma lookup_restaurant_mem: "lookup_restaurant cat rid = Some r \<Longrightarrow> r \<in> set cat"
  by (auto simp: lookup_restaurant_def find_Some_iff)

lemma capacity_invariant_empty:
  "\<forall>r\<in>set cat. 0 \<le> r_capacity r \<Longrightarrow> capacity_invariant cat empty_db"
  by (auto simp: capacity_invariant_def total_booked_sum slot_rows_def empty_db_def
      dest: lookup_restaurant_mem)

lemma capacity_invariant_step:
  assumes "capacity_invariant cat d"
  shows "capacity_invariant cat (snd (make_reservation cat d rid date time ps un up))"
  using make_reservation_cases[of cat d rid date time ps un up]
proof
  assume "\<not> bk_success (fst (make_reservation cat d rid date time ps un up))
      \<and> snd (make_reservation cat d rid date time ps un up) = d"
  with assms show ?thesis by simp
next
  assume "bk_success (fst (make_reservation cat d rid date time ps un up))
      \<and> (\<exists>r rt. lookup_restaurant cat rid = Some r \<and> round_time_to_nearest_hour time = Some rt
            \<and> 0 < ps \<and> total_booked d rid date rt + ps \<le> r_capacity r
            \<and> snd (make_reservation cat d rid date time ps un up)
                = snd (insert_reservation d rid date rt ps un up))"
  then obtain r rt where r: "lookup_restaurant cat rid = Some r"
    and le: "total_booked d rid date rt + ps \<le> r_capacity r"
    and eq: "snd (make_reservation cat d rid date time ps un up)
                = snd (insert_reservation d rid date rt ps un up)" by blast
  show ?thesis
    unfolding capacity_invariant_def eq total_booked_insert
    using assms r le by (auto simp: capacity_invariant_def)
qed

lemma capacity_invariant_run:
  "capacity_invariant cat d \<Longrightarrow> capacity_invariant cat (run_calls cat d cs)"
  by (induction cs arbitrary: d) (simp_all add: make_reservation_call_def capacity_invariant_step)

lemma str_int_small: "str_int 1 = ''1''" "str_int 2 = ''2''"
  by code_simp+

text \<open>
  Claim C10. \<open>check_availability\<close> never modifies the reservation ledger: for every
  input, valid or not, the database after the call is the database before the call, and
  so are its rows.
\<close>

theorem check_availability_never_writes:
  "snd (check_availability cat d rid date time ps) = d
   \<and> rows (snd (check_availability cat d rid date time ps)) = rows d"
  by (simp add: check_availability_def Let_def split: option.splits)




text \<open>
  Claim C8. When \<open>user_name\<close> or \<open>user_phone\<close> is empty, or the availability check
  against the current state is negative, \<open>make_reservation\<close> returns a negative result
  (the failure dictionary with the arguments and a message) and leaves the ledger as it
  was.
\<close>

theorem make_reservation_fails_fast:
  assumes "un = [] \<or> up = [] \<or> \<not> av_available (fst (check_availability cat d rid date time ps))"
  shows "\<not> bk_success (fst (make_reservation cat d rid date time ps un up))
    \<and> fst (make_reservation cat d rid date time ps un up)
        = booking_failure rid date time ps un up
            (if un = [] \<or> up = [] then ''Name and phone number are required for reservation.''
             else av_message (fst (check_availability cat d rid date time ps)))
    \<and> snd (make_reservation cat d rid date time ps un up) = d"
  using make_reservation_failure[OF assms] by (simp add: booking_failure_def)

theorem make_reservation_fails_fast_witness:
  "\<not> bk_success (fst (make_reservation example_catalog empty_db ''r1'' ''2025-06-01'' ''19:10'' 2 [] ''555-0100''))
   \<and> snd (make_reservation example_catalog empty_db ''r1'' ''2025-06-01'' ''19:10'' 2 [] ''555-0100'') = empty_db
   \<and> \<not> av_available (fst (check_availability example_catalog empty_db ''r1'' ''2025-06-01'' ''19:10'' 5))
   \<and> \<not> bk_success (fst (make_reservation example_catalog empty_db ''r1'' ''2025-06-01'' ''19:10'' 5 ''Ann'' ''555-0100''))
   \<and> snd (make_reservation example_catalog empty_db ''r1'' ''2025-06-01'' ''19:10'' 5 ''Ann'' ''555-0100'') = empty_db"
proof -
  have na: "\<not> av_available (fst (check_availability example_catalog empty_db ''r1'' ''2025-06-01'' ''19:10'' 5))"
    by code_simp
  from make_reservation_fails_fast[of "[]" "''555-0100''" example_catalog empty_db "''r1''" "''2025-06-01''" "''19:10''" 2]
    make_reservation_fails_fast[of "''Ann''" "''555-0100''" example_catalog empty_db "''r1''" "''2025-06-01''" "''19:10''" 5]
    na
  show ?thesis by (simp add: booking_failure_def)
qed

text \<open>
  Claim C7. In a slot without bookings of a restaurant of capacity 4, a reservation for
  3 succeeds; a following reservation for 2 in the same slot fails, leaves the ledger
  unchanged and says that there is space for only 1 more; a following reservation for 1
  succeeds and brings the total of the slot to 4.
\<close>

theorem three_bookings_at_capacity_four:
  assumes "lookup_restaurant cat rid = Some r" and "r_capacity r = 4"
    and "round_time_to_nearest_hour time = Some rt"
    and "slot_rows d rid date rt = []"
    and "un \<noteq> []" and "up \<noteq> []"
  shows "bk_success (fst (make_reservation cat d rid date time 3 un up))
    \<and> \<not> bk_success (fst (make_reservation cat
            (snd (make_reservation cat d rid date time 3 un up)) rid date time 2 un up))
    \<and> bk_message (fst (make_reservation cat
            (snd (make_reservation cat d rid date time 3 un up)) rid date time 2 un up))
        = ''Sorry, we only have space for 1 more people at '' @ rt @ '', not 2.''
    \<and> snd (make_reservation cat
            (snd (make_reservation cat d rid date time 3 un up)) rid date time 2 un up)
        = snd (make_reservation cat d rid date time 3 un up)
    \<and> bk_success (fst (make_reservation cat
            (snd (make_reservation cat d rid date time 3 un up)) rid date time 1 un up))
    \<and> total_booked (snd (make_reservation cat
            (snd (make_reservation cat d rid date time 3 un up)) rid date time 1 un up))
          rid date rt = 4"
proof -
  define d1 where "d1 = snd (make_reservation cat d rid date time 3 un up)"
  have b0: "total_booked d rid date rt = 0" using assms(4) by (simp add: total_booked_sum)
  have s1: "bk_success (fst (make_reservation cat d rid date time 3 un up))
         \<and> d1 = snd (insert_reservation d rid date rt 3 un up)"
    unfolding d1_def
    using make_reservation_success[OF assms(5) assms(6) assms(1) assms(3), of 3 d date] assms(2) b0
    by simp
  then have b1: "total_booked d1 rid date rt = 3" by (simp add: total_booked_insert b0)
  have rep: "fst (check_availability cat d1 rid date time 2)
           = availability_report rid date rt 2 4 3"
    using check_availability_report[of 2 cat rid r time rt d1 date] assms(1,2,3) b1 by simp
  then have na: "\<not> av_available (fst (check_availability cat d1 rid date time 2))"
    by (simp add: availability_report_def Let_def)
  have msg: "av_message (fst (check_availability cat d1 rid date time 2))
      = ''Sorry, we only have space for 1 more people at '' @ rt @ '', not 2.''"
    by (simp add: rep availability_report_def availability_message_def Let_def str_int_small)
  have f2: "make_reservation cat d1 rid date time 2 un up
      = (booking_failure rid date time 2 un up
           (''Sorry, we only have space for 1 more people at '' @ rt @ '', not 2.''), d1)"
    using make_reservation_failure[of un up cat d1 rid date time 2] na assms(5,6) msg by simp
  have s3: "bk_success (fst (make_reservation cat d1 rid date time 1 un up))
         \<and> snd (make_reservation cat d1 rid date time 1 un up)
             = snd (insert_reservation d1 rid date rt 1 un up)"
    using make_reservation_success[OF assms(5) assms(6) assms(1) assms(3), of 1 d1 date] assms(2) b1
    by simp
  then have b3: "total_booked (snd (make_reservation cat d1 rid date time 1 un up)) rid date rt = 4"
    by (simp add: total_booked_insert b1)
  from s1 f2 s3 b3 show ?thesis
    unfolding d1_def[symmetric] by (simp add: booking_failure_def)
qed

theorem three_bookings_at_capacity_four_witness:
  "bk_success (fst (make_reservation example_catalog empty_db ''r1'' ''2025-06-01'' ''19:10'' 3 ''Ann'' ''555-0100''))
    \<and> bk_message (fst (make_reservation example_catalog
            (snd (make_reservation example_catalog empty_db ''r1'' ''2025-06-01'' ''19:10'' 3 ''Ann'' ''555-0100''))
            ''r1'' ''2025-06-01'' ''19:10'' 2 ''Ann'' ''555-0100''))
        = ''Sorry, we only have space for 1 more people at 19:00, not 2.''
    \<and> total_booked (snd (make_reservation example_catalog
            (snd (make_reservation example_catalog empty_db ''r1'' ''2025-06-01'' ''19:10'' 3 ''Ann'' ''555-0100''))
            ''r1'' ''2025-06-01'' ''19:10'' 1 ''Ann'' ''555-0100''))
          ''r1'' ''2025-06-01'' ''19:00'' = 4"
proof -
  have look: "lookup_restaurant example_catalog ''r1'' = Some spice_garden"
    by (simp add: lookup_restaurant_def example_catalog_def spice_garden_def)
  have cap: "r_capacity spice_garden = 4" by (simp add: spice_garden_def)
  have rt: "round_time_to_nearest_hour ''19:10'' = Some ''19:00''" by code_simp
  have none: "slot_rows empty_db ''r1'' ''2025-06-01'' ''19:00'' = []"
    by (simp add: slot_rows_def empty_db_def)
  have un: "''Ann'' \<noteq> []" and up: "''555-0100'' \<noteq> []" by simp_all
  from three_bookings_at_capacity_four[OF look cap rt none un up]
  show ?thesis by simp
qed

text \<open>
  Claim C1. For a catalog with nonnegative capacities and every sequence of
  \<open>make_reservation\<close> calls that starts from the empty ledger, the party sizes of every
  slot sum to at most the capacity of its restaurant; and a further call either succeeds
  and appends one reservation, after which the invariant still holds, or returns a
  negative result and leaves the ledger unchanged.
\<close>

theorem capacity_never_exceeded:
  assumes "\<forall>r\<in>set cat. 0 \<le> r_capacity r"
  shows "capacity_invariant cat (run_calls cat empty_db cs)
    \<and> ((bk_success (fst (make_reservation_call cat (run_calls cat empty_db cs) c))
         \<and> (\<exists>row. rows (snd (make_reservation_call cat (run_calls cat empty_db cs) c))
                     = rows (run_calls cat empty_db cs) @ [row])
         \<and> capacity_invariant cat (snd (make_reservation_call cat (run_calls cat empty_db cs) c)))
       \<or> (\<not> bk_success (fst (make_reservation_call cat (run_calls cat empty_db cs) c))
         \<and> snd (make_reservation_call cat (run_calls cat empty_db cs) c)
             = run_calls cat empty_db cs))"
proof -
  define d where "d = run_calls cat empty_db cs"
  have inv: "capacity_invariant cat d"
    unfolding d_def by (rule capacity_invariant_run[OF capacity_invariant_empty[OF assms]])
  have inv': "capacity_invariant cat (snd (make_reservation_call cat d c))"
    unfolding make_reservation_call_def by (rule capacity_invariant_step[OF inv])
  have "(\<not> bk_success (fst (make_reservation_call cat d c))
           \<and> snd (make_reservation_call cat d c) = d)
      \<or> (bk_success (fst (make_reservation_call cat d c))
           \<and> (\<exists>row. rows (snd (make_reservation_call cat d c)) = rows d @ [row]))"
    using make_reservation_cases[of cat d "call_restaurant_id c" "call_date c" "call_time c"
        "call_party_size c" "call_user_name c" "call_user_phone c"]
    by (auto simp: make_reservation_call_def rows_insert)
  with inv inv' show ?thesis unfolding d_def by blast
qed

theorem capacity_never_exceeded_witness:
  "total_booked (run_calls example_catalog empty_db [example_call 3, example_call 2])
        ''r1'' ''2025-06-01'' ''19:00'' \<le> 4
   \<and> bk_success (fst (make_reservation_call example_catalog
        (run_calls example_catalog empty_db [example_call 3, example_call 2]) (example_call 1)))
   \<and> total_booked (snd (make_reservation_call example_catalog
        (run_calls example_catalog empty_db [example_call 3, example_call 2]) (example_call 1)))
        ''r1'' ''2025-06-01'' ''19:00'' \<le> 4"
proof -
  have caps: "\<forall>r\<in>set example_catalog. 0 \<le> r_capacity r"
    by (simp add: example_catalog_def spice_garden_def)
  have look: "lookup_restaurant example_catalog ''r1'' = Some spice_garden"
    by (simp add: lookup_restaurant_def example_catalog_def spice_garden_def)
  have cap: "r_capacity spice_garden = 4" by (simp add: spice_garden_def)
  have ok: "bk_success (fst (make_reservation_call example_catalog
        (run_calls example_catalog empty_db [example_call 3, example_call 2]) (example_call 1)))"
    by code_simp
  from capacity_never_exceeded[OF caps, of "[example_call 3, example_call 2]" "example_call 1"]
    ok look cap caps
  show ?thesis unfolding capacity_invariant_def by (metis (no_types, lifting))
qed

section \<open>The tool calling loop\<close>

text \<open>Cleaning and extraction on small texts.\<close>

lemma clean_response_text_examples:
  "clean_response_text (''  (hello there)  '' @ [CHR 0x0A]) = ''hello there''"
  "clean_response_text (''<start_of_turn>model'' @ [CHR 0x0A] @ ''Sure.<end_of_turn>'' @ [CHR 0x0A])
     = ''Sure.''"
  by code_simp+

lemma search_function_call_examples:
  "search_function_call (''ok '' @ directive_text ''x'' @ '' bye'') = Some (directive_text ''x'')"
  "search_function_call ''{ function_call }'' = None"
  by code_simp+

lemma tool_calling_loop_stop:
  "\<not> tool_call_count s < bound \<Longrightarrow> tool_calling_loop env bound s = s"
  by (simp add: tool_calling_loop.simps)

lemma tool_calling_loop_Break:
  "tool_call_count s < bound \<Longrightarrow> iteration env s = Break s' \<Longrightarrow> tool_calling_loop env bound s = s'"
  by (simp add: tool_calling_loop.simps)

lemma tool_calling_loop_Continue:
  "tool_call_count s < bound \<Longrightarrow> iteration env s = Continue s'
     \<Longrightarrow> tool_calling_loop env bound s = tool_calling_loop env bound s'"
  by (simp add: tool_calling_loop.simps)

lemma time_parameter_cases:
  assumes "case map_of kvs ''time'' of None \<Rightarrow> True | Some (JStr _) \<Rightarrow> True | Some _ \<Rightarrow> False"
  shows "map_of kvs ''time'' = None \<or> (\<exists>t. map_of kvs ''time'' = Some (JStr t))"
proof (cases "map_of kvs ''time''")
  case None
  then show ?thesis by simp
next
  case (Some v)
  with assms show ?thesis by (cases v) simp_all
qed

lemma round_time_parameter_ok:
  assumes "map_of kvs ''time'' = None \<or> (\<exists>t. map_of kvs ''time'' = Some (JStr t))"
  shows "\<exists>kvs'. round_time_parameter (JObj kvs) = Inr (JObj kvs')"
  using assms
proof
  assume "map_of kvs ''time'' = None"
  then show ?thesis by simp
next
  assume "\<exists>t. map_of kvs ''time'' = Some (JStr t)"
  then obtain t where t: "map_of kvs ''time'' = Some (JStr t)" by blast
  show ?thesis by (cases "round_time_to_nearest_hour t") (simp_all add: t)
qed

lemma parameters_cases:
  assumes "case p of None \<Rightarrow> True
           | Some (JObj kvs) \<Rightarrow>
               (case map_of kvs ''time'' of None \<Rightarrow> True | Some (JStr _) \<Rightarrow> True
                | Some _ \<Rightarrow> False)
           | Some _ \<Rightarrow> False"
  shows "\<exists>kvs. (case p of None \<Rightarrow> JObj [] | Some v \<Rightarrow> v) = JObj kvs
           \<and> (map_of kvs ''time'' = None \<or> (\<exists>t. map_of kvs ''time'' = Some (JStr t)))"
proof (cases p)
  case None
  then show ?thesis by simp
next
  case (Some v)
  with assms show ?thesis by (cases v) (simp_all add: time_parameter_cases)
qed

lemma dispatchableD:
  assumes "dispatchable x"
  shows "\<exists>fc function_name kvs. x = Some (JObj fc)
           \<and> map_of fc ''name'' = Some (JStr function_name)
           \<and> function_name \<in> set tool_map
           \<and> (case map_of fc ''parameters'' of None \<Rightarrow> JObj [] | Some v \<Rightarrow> v) = JObj kvs
           \<and> (map_of kvs ''time'' = None \<or> (\<exists>t. map_of kvs ''time'' = Some (JStr t)))"
proof (cases x)
  case None
  with assms show ?thesis by (simp add: dispatchable_def)
next
  case (Some j)
  show ?thesis
  proof (cases j)
    case (JObj fc)
    show ?thesis
    proof (cases "map_of fc ''name''")
      case None
      with assms Some JObj show ?thesis by (simp add: dispatchable_def)
    next
      case n: (Some v)
      show ?thesis
      proof (cases v)
        case (JStr function_name)
        from assms Some JObj n JStr have reg: "function_name \<in> set tool_map"
          and p: "case map_of fc ''parameters'' of None \<Rightarrow> True
                  | Some (JObj kvs) \<Rightarrow>
                      (case map_of kvs ''time'' of None \<Rightarrow> True | Some (JStr _) \<Rightarrow> True
                       | Some _ \<Rightarrow> False)
                  | Some _ \<Rightarrow> False"
          by (simp_all add: dispatchable_def)
        from parameters_cases[OF p] Some JObj n JStr reg show ?thesis by simp
      qed (use assms Some JObj n in \<open>simp_all add: dispatchable_def\<close>)
    qed
  qed (use assms Some in \<open>simp_all add: dispatchable_def\<close>)
qed

text \<open>A dispatchable call makes the body take the \<open>continue\<close> path: two messages are
  appended, the counter goes up by one and the answer is not assigned.\<close>

lemma iteration_dispatchable:
  assumes gen: "generate_content env
             (format_history_for_gemma (llm_messages s) (AGENT_INITIAL_INSTRUCTIONS env))
           = Inr response_text"
    and d: "dispatchable (extract_function_call env (clean_response_text response_text))"
  shows "\<exists>s'. iteration env s = Continue s'
           \<and> tool_call_count s' = tool_call_count s + 1
           \<and> final_assistant_response s' = final_assistant_response s
           \<and> (\<exists>reply. llm_messages s' = llm_messages s @
                 [\<lparr>msg_role = ''assistant'',
                   msg_content = clean_response_text response_text\<rparr>,
                  \<lparr>msg_role = ''user'', msg_content = reply\<rparr>])"
proof -
  define answer where "answer = clean_response_text response_text"
  from dispatchableD[OF d] obtain fc function_name kvs where
    fc: "extract_function_call env answer = Some (JObj fc)"
    and name: "map_of fc ''name'' = Some (JStr function_name)"
    and reg: "function_name \<in> set tool_map"
    and params: "(case map_of fc ''parameters'' of None \<Rightarrow> JObj [] | Some v \<Rightarrow> v) = JObj kvs"
    and time: "map_of kvs ''time'' = None \<or> (\<exists>t. map_of kvs ''time'' = Some (JStr t))"
    unfolding answer_def by blast
  from round_time_parameter_ok[OF time]
  obtain kvs' where rp: "round_time_parameter (JObj kvs) = Inr (JObj kvs')" by blast
  have ne: "fc \<noteq> []" using name by auto
  have h: "handle_function_call env s answer (JObj fc)
             = call_tool env s answer function_name (JObj kvs')"
    using name reg rp params by (simp add: handle_function_call_def)
  have it: "iteration env s = call_tool env s answer function_name (JObj kvs')"
    using gen fc ne h by (simp add: iteration_def Let_def answer_def)
  obtain r w where tf: "tool_function env function_name kvs' (world s) = (r, w)"
    by (cases "tool_function env function_name kvs' (world s)")
  show ?thesis
    unfolding it answer_def[symmetric]
    by (simp add: call_tool_def append_messages_def tf)
qed

text \<open>With a service that always returns a dispatchable call the loop runs until the
  counter reaches the bound and never assigns the answer.\<close>

lemma tool_calling_loop_always_dispatching:
  assumes "\<And>h. \<exists>t. generate_content env h = Inr t
              \<and> dispatchable (extract_function_call env (clean_response_text t))"
    and "tool_call_count s \<le> bound"
  shows "tool_call_count (tool_calling_loop env bound s) = bound
         \<and> final_assistant_response (tool_calling_loop env bound s) = final_assistant_response s"
  using assms(2)
proof (induction "bound - tool_call_count s" arbitrary: s)
  case 0
  then show ?case by (simp add: tool_calling_loop_stop)
next
  case (Suc n)
  then have lt: "tool_call_count s < bound" by simp
  from assms(1) obtain t where
    gen: "generate_content env
             (format_history_for_gemma (llm_messages s) (AGENT_INITIAL_INSTRUCTIONS env)) = Inr t"
    and d: "dispatchable (extract_function_call env (clean_response_text t))" by blast
  from iteration_dispatchable[OF gen d] obtain s' where
    it: "iteration env s = Continue s'" and c: "tool_call_count s' = tool_call_count s + 1"
    and f: "final_assistant_response s' = final_assistant_response s" by blast
  have "n = bound - tool_call_count s'" using Suc(2) c by simp
  moreover have "tool_call_count s' \<le> bound" using lt c by simp
  ultimately have "tool_call_count (tool_calling_loop env bound s') = bound
         \<and> final_assistant_response (tool_calling_loop env bound s') = final_assistant_response s'"
    by (rule Suc(1))
  with tool_calling_loop_Continue[OF lt it] f show ?case by simp
qed

text \<open>The stub: its fields, and its response under the cleaning and the extraction.\<close>

lemma stub_environment_fields:
  "generate_content (stub_environment name) h = Inr (stub_response name)"
  "tool_function (stub_environment name) f kvs w = (Inr ''{}'', Suc w)"
  by (simp_all add: stub_environment_def)

lemma stub_find_restaurant:
  "clean_response_text (stub_response ''find_restaurant'') = stub_response ''find_restaurant''"
  "extract_function_call (stub_environment ''find_restaurant'') (stub_response ''find_restaurant'')
     = Some (JObj [(''name'', JStr ''find_restaurant''), (''parameters'', JObj [])])"
  by code_simp+

lemma stub_cancel_reservation:
  "clean_response_text (stub_response ''cancel_reservation'') = stub_response ''cancel_reservation''"
  "extract_function_call (stub_environment ''cancel_reservation'')
       (stub_response ''cancel_reservation'')
     = Some (JObj [(''name'', JStr ''cancel_reservation''), (''parameters'', JObj [])])"
  by code_simp+

text \<open>
  Claim C2. With a generation service that always returns a well-formed call of a known
  tool the loop is to dispatch exactly \<open>MAX_SEQUENTIAL_CALLS\<close> times, stop, and show
  the text of the last iteration. On the stub the loop does dispatch four times (the
  tool was called four times and the text of the model is the last but one message of
  the history), but no branch on that path assigns \<open>final_assistant_response\<close>: the
  answer shown to the user is \<open>None\<close>.
\<close>

theorem loop_exhausted_without_answer:
  "tool_call_count (handle_user_input (stub_environment ''find_restaurant'') [] 0 ''Find me a table'')
     = MAX_SEQUENTIAL_CALLS
   \<and> world (handle_user_input (stub_environment ''find_restaurant'') [] 0 ''Find me a table'') = 4
   \<and> msg_content (last (butlast (llm_messages
        (handle_user_input (stub_environment ''find_restaurant'') [] 0 ''Find me a table''))))
       = stub_response ''find_restaurant''
   \<and> final_assistant_response
        (handle_user_input (stub_environment ''find_restaurant'') [] 0 ''Find me a table'') = None"
  by (simp add: handle_user_input_def MAX_SEQUENTIAL_CALLS_def stub_environment_fields
        stub_find_restaurant iteration_def handle_function_call_def call_tool_def
        append_messages_def tool_map_def Let_def tool_calling_loop.simps)

text \<open>
  Claim C9. When the name of the extracted call is not a key of \<open>tool_map\<close>, the loop
  ends in that iteration: the counter and the state of the tools are unchanged, the text
  of the model and the line \<open>Invalid function name: ...\<close> are appended to the history,
  and the answer shown to the user is the text of the model.
\<close>

theorem unknown_operation_ends_loop:
  assumes "tool_call_count s < bound"
    and "generate_content env
           (format_history_for_gemma (llm_messages s) (AGENT_INITIAL_INSTRUCTIONS env))
         = Inr response_text"
    and "extract_function_call env (clean_response_text response_text) = Some (JObj fc)"
    and "fc \<noteq> []"
    and "in_tool_map (case map_of fc ''name'' of None \<Rightarrow> JNull | Some v \<Rightarrow> v) = Inr False"
  shows "tool_calling_loop env bound s =
           s\<lparr>llm_messages := llm_messages s @
                [\<lparr>msg_role = ''assistant'',
                  msg_content = clean_response_text response_text\<rparr>,
                 \<lparr>msg_role = ''user'',
                  msg_content = ''Invalid function name: ''
                    @ str_json (case map_of fc ''name'' of None \<Rightarrow> JNull | Some v \<Rightarrow> v)\<rparr>],
              final_assistant_response := Some (clean_response_text response_text)\<rparr>"
proof -
  have "iteration env s = Break (s\<lparr>llm_messages := llm_messages s @
                [\<lparr>msg_role = ''assistant'',
                  msg_content = clean_response_text response_text\<rparr>,
                 \<lparr>msg_role = ''user'',
                  msg_content = ''Invalid function name: ''
                    @ str_json (case map_of fc ''name'' of None \<Rightarrow> JNull | Some v \<Rightarrow> v)\<rparr>],
              final_assistant_response := Some (clean_response_text response_text)\<rparr>)"
    using assms(2-5)
    by (simp add: iteration_def handle_function_call_def append_messages_def Let_def)
  with assms(1) show ?thesis by (rule tool_calling_loop_Break)
qed

theorem unknown_operation_ends_loop_witness:
  "final_assistant_response
     (handle_user_input (stub_environment ''cancel_reservation'') [] 0 ''Cancel my table'')
     = Some (stub_response ''cancel_reservation'')
   \<and> tool_call_count
     (handle_user_input (stub_environment ''cancel_reservation'') [] 0 ''Cancel my table'') = 0
   \<and> world
     (handle_user_input (stub_environment ''cancel_reservation'') [] 0 ''Cancel my table'') = 0
   \<and> llm_messages
     (handle_user_input (stub_environment ''cancel_reservation'') [] 0 ''Cancel my table'')
     = [\<lparr>msg_role = ''user'', msg_content = ''Cancel my table''\<rparr>,
        \<lparr>msg_role = ''assistant'', msg_content = stub_response ''cancel_reservation''\<rparr>,
        \<lparr>msg_role = ''user'', msg_content = ''Invalid function name: cancel_reservation''\<rparr>]"
proof -
  let ?env = "stub_environment ''cancel_reservation''"
  let ?s = "\<lparr>llm_messages = [] @ [\<lparr>msg_role = ''user'', msg_content = ''Cancel my table''\<rparr>],
        tool_call_count = 0, final_assistant_response = None, world = (0::nat)\<rparr>"
  let ?fc = "[(''name'', JStr ''cancel_reservation''), (''parameters'', JObj [])]"
  have 1: "tool_call_count ?s < MAX_SEQUENTIAL_CALLS" by (simp add: MAX_SEQUENTIAL_CALLS_def)
  have 2: "generate_content ?env
           (format_history_for_gemma (llm_messages ?s) (AGENT_INITIAL_INSTRUCTIONS ?env))
         = Inr (stub_response ''cancel_reservation'')" by (simp add: stub_environment_fields)
  have 3: "extract_function_call ?env (clean_response_text (stub_response ''cancel_reservation''))
         = Some (JObj ?fc)"
    by (simp add: stub_cancel_reservation)
  have 4: "?fc \<noteq> []" by simp
  have 5: "in_tool_map (case map_of ?fc ''name'' of None \<Rightarrow> JNull | Some v \<Rightarrow> v) = Inr False"
    by (simp add: tool_map_def)
  from unknown_operation_ends_loop[OF 1 2 3 4 5]
  show ?thesis by (simp add: handle_user_input_def stub_cancel_reservation)
qed

end
